theory Spec2Isabelle
  imports Main "HOL-Library.Word"
begin

unbundle bit_operations_syntax

section \<open>Data model\<close>

text \<open>
  The Go types of \<^verbatim>\<open>blockchain.go\<close>. Go's \<^verbatim>\<open>int\<close> is taken at its width on
  64-bit platforms, so \<^verbatim>\<open>int\<close> and \<^verbatim>\<open>int64\<close> are both 64-bit words read as two's
  complement (\<open>sint\<close>); \<open>+\<close> wraps as Go's does. A Go string is a sequence of bytes,
  here a \<open>string\<close>.
\<close>

type_synonym go_int = "64 word"
type_synonym int64 = "64 word"
type_synonym byte = "8 word"
type_synonym u32 = "32 word"

record Transaction =
  From :: string
  To :: string
  Amount :: go_int

record Block =
  Index :: go_int
  Timestamp :: int64
  PrevHash :: string
  Hash :: string
  Nonce :: int64
  Transactions :: "Transaction list"

record Blockchain =
  Blocks :: "Block list"
  Difficulty :: go_int

text \<open>
  A run-time panic of the Go program is a value: \<open>NegativeRepeatCount\<close> is the panic of
  \<^verbatim>\<open>strings.Repeat\<close> on a negative count, \<open>IndexOutOfRange\<close> the one of indexing a
  slice outside its bounds.
\<close>

datatype error = NegativeRepeatCount | IndexOutOfRange

section \<open>The standard library functions the program calls\<close>

subsection \<open>strconv\<close>

text \<open>
  \<^verbatim>\<open>strconv.FormatInt(i, 10)\<close> and \<^verbatim>\<open>strconv.Itoa\<close>: the decimal digits of the
  value, most significant first, no leading zero, a minus sign before a negative value.
\<close>

function dec_digits :: "int \<Rightarrow> string" where
  "dec_digits n =
     (if n < 10 then [char_of (48 + n)]
      else dec_digits (n div 10) @ [char_of (48 + n mod 10)])"
  by pat_completeness auto
termination
  by (relation "measure nat") auto

declare dec_digits.simps [simp del]

definition FormatInt :: "int64 \<Rightarrow> string" where
  "FormatInt i =
     (if sint i < 0 then CHR ''-'' # dec_digits (- sint i) else dec_digits (sint i))"

definition Itoa :: "go_int \<Rightarrow> string" where
  "Itoa i = FormatInt i"

subsection \<open>strings\<close>

definition Repeat :: "string \<Rightarrow> go_int \<Rightarrow> error + string" where
  "Repeat s count =
     (if sint count < 0 then Inl NegativeRepeatCount
      else Inr (concat (replicate (nat (sint count)) s)))"

definition HasPrefix :: "string \<Rightarrow> string \<Rightarrow> bool" where
  "HasPrefix s pre = (length pre \<le> length s \<and> take (length pre) s = pre)"

subsection \<open>crypto/sha256 and encoding/hex\<close>

text \<open>
  \<^verbatim>\<open>sha256.Sum256\<close> is the SHA-256 function of FIPS 180-4: the message is padded to a
  multiple of 64 bytes and each 64-byte block is run through 64 rounds over the running
  eight-word state. The message schedule is kept as a window of sixteen words that
  slides by one word each round. \<^verbatim>\<open>hex.EncodeToString\<close> writes two lower-case
  hexadecimal digits for each byte.
\<close>

definition K256 :: "u32 list" where
  "K256 = [
    0x428A2F98, 0x71374491, 0xB5C0FBCF, 0xE9B5DBA5, 0x3956C25B, 0x59F111F1, 0x923F82A4, 0xAB1C5ED5,
    0xD807AA98, 0x12835B01, 0x243185BE, 0x550C7DC3, 0x72BE5D74, 0x80DEB1FE, 0x9BDC06A7, 0xC19BF174,
    0xE49B69C1, 0xEFBE4786, 0x0FC19DC6, 0x240CA1CC, 0x2DE92C6F, 0x4A7484AA, 0x5CB0A9DC, 0x76F988DA,
    0x983E5152, 0xA831C66D, 0xB00327C8, 0xBF597FC7, 0xC6E00BF3, 0xD5A79147, 0x06CA6351, 0x14292967,
    0x27B70A85, 0x2E1B2138, 0x4D2C6DFC, 0x53380D13, 0x650A7354, 0x766A0ABB, 0x81C2C92E, 0x92722C85,
    0xA2BFE8A1, 0xA81A664B, 0xC24B8B70, 0xC76C51A3, 0xD192E819, 0xD6990624, 0xF40E3585, 0x106AA070,
    0x19A4C116, 0x1E376C08, 0x2748774C, 0x34B0BCB5, 0x391C0CB3, 0x4ED8AA4A, 0x5B9CCA4F, 0x682E6FF3,
    0x748F82EE, 0x78A5636F, 0x84C87814, 0x8CC70208, 0x90BEFFFA, 0xA4506CEB, 0xBEF9A3F7, 0xC67178F2]"

type_synonym sha_state = "u32 \<times> u32 \<times> u32 \<times> u32 \<times> u32 \<times> u32 \<times> u32 \<times> u32"

definition init256 :: sha_state where
  "init256 = (0x6A09E667, 0xBB67AE85, 0x3C6EF372, 0xA54FF53A, 0x510E527F, 0x9B05688C, 0x1F83D9AB, 0x5BE0CD19)"

definition Ch :: "u32 \<Rightarrow> u32 \<Rightarrow> u32 \<Rightarrow> u32" where
  "Ch x y z = (x AND y) XOR (NOT x AND z)"
definition Maj :: "u32 \<Rightarrow> u32 \<Rightarrow> u32 \<Rightarrow> u32" where
  "Maj x y z = (x AND y) XOR (x AND z) XOR (y AND z)"
definition bsig0 :: "u32 \<Rightarrow> u32" where
  "bsig0 x = word_rotr 2 x XOR word_rotr 13 x XOR word_rotr 22 x"
definition bsig1 :: "u32 \<Rightarrow> u32" where
  "bsig1 x = word_rotr 6 x XOR word_rotr 11 x XOR word_rotr 25 x"
definition ssig0 :: "u32 \<Rightarrow> u32" where
  "ssig0 x = word_rotr 7 x XOR word_rotr 18 x XOR drop_bit 3 x"
definition ssig1 :: "u32 \<Rightarrow> u32" where
  "ssig1 x = word_rotr 17 x XOR word_rotr 19 x XOR drop_bit 10 x"

fun rounds :: "u32 list \<Rightarrow> u32 list \<Rightarrow> sha_state \<Rightarrow> sha_state" where
  "rounds [] w s = s"
| "rounds (k # ks) w (a, b, c, d, e, f, g, h) =
     (let t1 = h + bsig1 e + Ch e f g + k + w ! 0;
          t2 = bsig0 a + Maj a b c;
          wn = ssig1 (w ! 14) + w ! 9 + ssig0 (w ! 1) + w ! 0
      in rounds ks (tl w @ [wn]) (t1 + t2, a, b, c, d + t1, e, f, g))"

fun be32 :: "byte list \<Rightarrow> u32 list" where
  "be32 (b0 # b1 # b2 # b3 # bs) =
     (push_bit 24 (ucast b0) OR push_bit 16 (ucast b1) OR push_bit 8 (ucast b2) OR ucast b3) # be32 bs"
| "be32 _ = []"

definition compress :: "sha_state \<Rightarrow> byte list \<Rightarrow> sha_state" where
  "compress s blk =
     (case s of (a, b, c, d, e, f, g, h) \<Rightarrow>
        (case rounds K256 (be32 blk) s of (a', b', c', d', e', f', g', h') \<Rightarrow>
           (a + a', b + b', c + c', d + d', e + e', f + f', g + g', h + h')))"

fun blocks256 :: "nat \<Rightarrow> sha_state \<Rightarrow> byte list \<Rightarrow> sha_state" where
  "blocks256 0 s bs = s"
| "blocks256 (Suc n) s bs = blocks256 n (compress s (take 64 bs)) (drop 64 bs)"

definition be_bytes :: "nat \<Rightarrow> 'a::len word \<Rightarrow> byte list" where
  "be_bytes k w = map (\<lambda>i. ucast (drop_bit (8 * i) w)) (rev [0..<k])"

definition pad256 :: "byte list \<Rightarrow> byte list" where
  "pad256 m = m @ [0x80] @ replicate ((64 - (length m + 9) mod 64) mod 64) 0 @ be_bytes 8 (word_of_nat (8 * length m) :: 64 word)"

definition Sum256 :: "string \<Rightarrow> byte list" where
  "Sum256 s =
     (let p = pad256 (map of_char s) in
      case blocks256 (length p div 64) init256 p of (a, b, c, d, e, f, g, h) \<Rightarrow>
        concat (map (\<lambda>w. be_bytes 4 w) [a, b, c, d, e, f, g, h]))"

definition hextable :: string where
  "hextable = ''0123456789abcdef''"

definition EncodeToString :: "byte list \<Rightarrow> string" where
  "EncodeToString bs = concat (map (\<lambda>b. [hextable ! unat (drop_bit 4 b), hextable ! unat (b AND 15)]) bs)"

section \<open>The program\<close>

subsection \<open>Canonical encoding and digest\<close>

text \<open>
  \<^verbatim>\<open>serializeTransactions\<close> writes into a buffer, one transaction after the other;
  the loop carries the buffer.
\<close>

fun serializeTransactions_loop :: "Transaction list \<Rightarrow> string \<Rightarrow> string" where
  "serializeTransactions_loop [] buf = buf"
| "serializeTransactions_loop (tx # txs) buf =
     serializeTransactions_loop txs
       (((((buf @ From tx) @ [CHR ''|'']) @ To tx) @ [CHR ''|'']) @ Itoa (Amount tx) @ [CHR 0x0A])"

definition serializeTransactions :: "Transaction list \<Rightarrow> string" where
  "serializeTransactions txs = serializeTransactions_loop txs []"

text \<open>The contents of the buffer of \<^verbatim>\<open>calculateHash\<close> when it is hashed.\<close>

definition hashedBytes :: "Block \<Rightarrow> string" where
  "hashedBytes b =
     (let buf = [];
          buf = buf @ Itoa (Index b);
          buf = buf @ [CHR ''|''];
          buf = buf @ FormatInt (Timestamp b);
          buf = buf @ [CHR ''|''];
          buf = buf @ PrevHash b;
          buf = buf @ [CHR ''|''];
          buf = buf @ serializeTransactions (Transactions b);
          buf = buf @ [CHR ''|''];
          buf = buf @ FormatInt (Nonce b)
      in buf)"

definition calculateHash :: "Block \<Rightarrow> string" where
  "calculateHash b = EncodeToString (Sum256 (hashedBytes b))"

subsection \<open>Proof of work\<close>

text \<open>
  The search loop of \<^verbatim>\<open>mine\<close> has no bound, so it is a partial function: \<open>None\<close> is
  the loop that never returns. The counter is an \<^verbatim>\<open>int64\<close>, and \<^verbatim>\<open>nonce++\<close> wraps.
\<close>

partial_function (option) mine_loop :: "Block \<Rightarrow> string \<Rightarrow> int64 \<Rightarrow> (string \<times> int64) option" where
  "mine_loop b targetPrefix nonce =
     (let h = calculateHash (b\<lparr>Nonce := nonce\<rparr>) in
      if HasPrefix h targetPrefix then Some (h, nonce)
      else mine_loop b targetPrefix (nonce + 1))"

definition mine :: "Block \<Rightarrow> go_int \<Rightarrow> (error + string \<times> int64) option" where
  "mine b difficulty =
     (case Repeat ''0'' difficulty of
        Inl e \<Rightarrow> Some (Inl e)
      | Inr targetPrefix \<Rightarrow> map_option Inr (mine_loop b targetPrefix 0))"

subsection \<open>Ledger\<close>

text \<open>
  \<^verbatim>\<open>time.Now().Unix()\<close> is an input of the model: the functions that read the clock take
  the value read as their first argument \<open>now\<close>. A function that calls \<^verbatim>\<open>mine\<close> returns
  \<open>None\<close> when the search does not return, \<open>Some (Inl e)\<close> when the call panics and
  \<open>Some (Inr r)\<close> when it returns \<open>r\<close>.
\<close>

definition newGenesisBlock :: "int64 \<Rightarrow> go_int \<Rightarrow> (error + Block) option" where
  "newGenesisBlock now difficulty =
     (let b = \<lparr>Index = 0, Timestamp = now, PrevHash = [], Hash = [], Nonce = 0,
                Transactions = []\<rparr>
      in case mine b difficulty of
           None \<Rightarrow> None
         | Some (Inl e) \<Rightarrow> Some (Inl e)
         | Some (Inr (h, n)) \<Rightarrow> Some (Inr (b\<lparr>Hash := h, Nonce := n\<rparr>)))"

definition newBlock :: "int64 \<Rightarrow> Block \<Rightarrow> Transaction list \<Rightarrow> Block" where
  "newBlock now prev txs =
     \<lparr>Index = Index prev + 1, Timestamp = now, PrevHash = Hash prev, Hash = [], Nonce = 0,
      Transactions = txs\<rparr>"

text \<open>
  \<^verbatim>\<open>AddBlock\<close> changes the ledger it is called on and returns the new block: the model
  returns both.
\<close>

definition AddBlock :: "int64 \<Rightarrow> Blockchain \<Rightarrow> Transaction list \<Rightarrow> (error + Blockchain \<times> Block) option" where
  "AddBlock now bc txs =
     (if Blocks bc = [] then Some (Inl IndexOutOfRange)
      else
        let prev = Blocks bc ! (length (Blocks bc) - 1);
            b = newBlock now prev txs
        in case mine b (Difficulty bc) of
             None \<Rightarrow> None
           | Some (Inl e) \<Rightarrow> Some (Inl e)
           | Some (Inr (h, n)) \<Rightarrow>
               (let b = b\<lparr>Hash := h\<rparr>;
                    b = b\<lparr>Nonce := n\<rparr>
                in Some (Inr (bc\<lparr>Blocks := Blocks bc @ [b]\<rparr>, b))))"

function IsValid_loop :: "Blockchain \<Rightarrow> nat \<Rightarrow> error + bool" where
  "IsValid_loop bc i =
     (if i < length (Blocks bc) then
        let cur = Blocks bc ! i;
            prev = Blocks bc ! (i - 1)
        in if PrevHash cur \<noteq> Hash prev then Inr False
           else if calculateHash cur \<noteq> Hash cur then Inr False
           else (case Repeat ''0'' (Difficulty bc) of
                   Inl e \<Rightarrow> Inl e
                 | Inr targetPrefix \<Rightarrow>
                     if \<not> HasPrefix (Hash cur) targetPrefix then Inr False
                     else IsValid_loop bc (i + 1))
      else Inr True)"
  by pat_completeness auto
termination
  by (relation "measure (\<lambda>(bc, i). length (Blocks bc) - i)") auto

declare IsValid_loop.simps [simp del]

definition IsValid :: "Blockchain \<Rightarrow> error + bool" where
  "IsValid bc = IsValid_loop bc 1"

definition NewBlockchain :: "int64 \<Rightarrow> go_int \<Rightarrow> (error + Blockchain) option" where
  "NewBlockchain now difficulty =
     (case newGenesisBlock now difficulty of
        None \<Rightarrow> None
      | Some (Inl e) \<Rightarrow> Some (Inl e)
      | Some (Inr genesis) \<Rightarrow> Some (Inr \<lparr>Blocks = [genesis], Difficulty = difficulty\<rparr>))"

text \<open>
  A ledger built as \<^verbatim>\<open>main\<close> builds one: \<^verbatim>\<open>NewBlockchain\<close>, then one \<^verbatim>\<open>AddBlock\<close> for
  each element of \<open>calls\<close>, which gives the clock value and the transactions of the call.
\<close>

fun AddBlocks :: "Blockchain \<Rightarrow> (int64 \<times> Transaction list) list \<Rightarrow> (error + Blockchain) option" where
  "AddBlocks bc [] = Some (Inr bc)"
| "AddBlocks bc ((now, txs) # calls) =
     (case AddBlock now bc txs of
        None \<Rightarrow> None
      | Some (Inl e) \<Rightarrow> Some (Inl e)
      | Some (Inr (bc', b)) \<Rightarrow> AddBlocks bc' calls)"

definition buildLedger :: "int64 \<Rightarrow> go_int \<Rightarrow> (int64 \<times> Transaction list) list \<Rightarrow> (error + Blockchain) option" where
  "buildLedger now difficulty calls =
     (case NewBlockchain now difficulty of
        None \<Rightarrow> None
      | Some (Inl e) \<Rightarrow> Some (Inl e)
      | Some (Inr bc) \<Rightarrow> AddBlocks bc calls)"

section \<open>Properties\<close>

text \<open>
  C10. \<^verbatim>\<open>calculateHash\<close> does not read the stored \<open>Hash\<close> field: two blocks that agree
  on \<open>Index\<close>, \<open>Timestamp\<close>, \<open>PrevHash\<close>, \<open>Nonce\<close> and \<open>Transactions\<close> have the same
  digest, whatever their \<open>Hash\<close> fields hold.
\<close>

theorem calculateHash_ignores_Hash:
  "Index b = Index b' \<Longrightarrow> Timestamp b = Timestamp b' \<Longrightarrow> PrevHash b = PrevHash b' \<Longrightarrow>
   Nonce b = Nonce b' \<Longrightarrow> Transactions b = Transactions b' \<Longrightarrow>
   calculateHash b = calculateHash b'"
  by (simp add: calculateHash_def hashedBytes_def)

theorem calculateHash_ignores_Hash_witness:
  "Hash \<lparr>Index = 1, Timestamp = 5, PrevHash = ''ab'', Hash = ''x'', Nonce = 7,
         Transactions = [\<lparr>From = ''a'', To = ''b'', Amount = 3\<rparr>]\<rparr>
     \<noteq> Hash \<lparr>Index = 1, Timestamp = 5, PrevHash = ''ab'', Hash = ''y'', Nonce = 7,
         Transactions = [\<lparr>From = ''a'', To = ''b'', Amount = 3\<rparr>]\<rparr> \<and>
   calculateHash \<lparr>Index = 1, Timestamp = 5, PrevHash = ''ab'', Hash = ''x'', Nonce = 7,
         Transactions = [\<lparr>From = ''a'', To = ''b'', Amount = 3\<rparr>]\<rparr>
     = calculateHash \<lparr>Index = 1, Timestamp = 5, PrevHash = ''ab'', Hash = ''y'', Nonce = 7,
         Transactions = [\<lparr>From = ''a'', To = ''b'', Amount = 3\<rparr>]\<rparr>"
  using calculateHash_ignores_Hash
    [of "\<lparr>Index = 1, Timestamp = 5, PrevHash = ''ab'', Hash = ''x'', Nonce = 7,
           Transactions = [\<lparr>From = ''a'', To = ''b'', Amount = 3\<rparr>]\<rparr>"
        "\<lparr>Index = 1, Timestamp = 5, PrevHash = ''ab'', Hash = ''y'', Nonce = 7,
           Transactions = [\<lparr>From = ''a'', To = ''b'', Amount = 3\<rparr>]\<rparr>"]
  by simp

end
